theory Spec2Isabelle
  imports Main
begin

section \<open>The element list of the editor: model data\<close>

text \<open>
  The element list (\<^verbatim>\<open>src/container/element-list/element-list.tsx\<close>) projects the
  element tree of the current page into a tree of \<^verbatim>\<open>ElementNodeProps\<close> and reacts to
  pointer and key events. The classes it reads (\<^verbatim>\<open>Model.Element\<close>,
  \<^verbatim>\<open>Model.ElementContent\<close>, \<^verbatim>\<open>Model.Pattern\<close>, \<^verbatim>\<open>Store.ViewStore\<close>) are
  imported from other modules; they appear here as the data the element list reads from
  them and the calls it makes on them.
\<close>

type_synonym ident = string

text \<open>
  Modelled from the spec: \<^verbatim>\<open>Types.SlotType\<close> (the declaration is imported from
  \<^verbatim>\<open>model/types\<close>). Section 3 of the specification gives a slot the type
  Children (the default slot) or Named.
\<close>

datatype SlotType = Children | Named

record PatternSlot =
  slotId :: ident
  slotName :: string
  slotType :: SlotType

datatype Pattern = Pattern (getSlots: "PatternSlot list")

subsection \<open>The element tree read by the projection\<close>

text \<open>
  Modelled from the spec: the element tree of section 3. \<^verbatim>\<open>render\<close> reads the tree
  below the root element of the current page. A node carries what the getters of
  \<^verbatim>\<open>Model.Element\<close> return, and its contents, each bound to a slot of the pattern
  and holding its child elements in stored order.
\<close>

datatype Element = Element
  (getId: ident) (getName: string) (getOpen: bool) (getSelected: bool)
  (isNameEditable: bool) (getHighlighted: bool) (getPlaceholderHighlighted: bool)
  (getPattern: "Pattern option") (getContents: "ElementContent list")
and ElementContent = ElementContent
  (contentGetId: ident) (getSlotId: ident) (getElements: "Element list")

text \<open>
  Modelled from the spec: \<^verbatim>\<open>Element.getContentBySlotId\<close>, the content lookup by slot
  identity of section 6; absent when the element has no content bound to the slot.
\<close>

definition getContentBySlotId :: "Element \<Rightarrow> ident \<Rightarrow> ElementContent option" where
  "getContentBySlotId element sid = find (\<lambda>c. getSlotId c = sid) (getContents element)"

text \<open>
  Modelled from the spec: \<^verbatim>\<open>Element.getDescendants\<close> (section 6:
  \<^verbatim>\<open>getDescendants() -> sequence of Element\<close>; section 4.1: the strict descendants).
  Every element of every content of the element, each followed by its own descendants.
\<close>

primrec getDescendants :: "Element \<Rightarrow> Element list"
  and contentGetDescendants :: "ElementContent \<Rightarrow> Element list" where
  "getDescendants (Element i n op se ed hi ph pa cs) = concat (map contentGetDescendants cs)"
| "contentGetDescendants (ElementContent i s es) =
     concat (map (\<lambda>e. e # getDescendants e) es)"

text \<open>The projection's output, \<^verbatim>\<open>ElementNodeProps\<close> (the fields the element list sets).\<close>

datatype ElementNodeProps = ElementNodeProps
  (active: bool) (children: "ElementNodeProps list") (draggable: bool) (dragging: bool)
  (editable: bool) (highlight: bool) (highlightPlaceholder: bool) (id': ident)
  (title: string) (open': bool)

subsection \<open>The document nodes an event is fired on\<close>

text \<open>
  \<^verbatim>\<open>ElementAnchors\<close> (imported from \<^verbatim>\<open>components\<close>) names the attributes that mark
  a node of the rendered list; the element list uses these five. A document node is read
  through its attributes and its \<^verbatim>\<open>parentElement\<close>; \<open>nodeRef\<close> is the identity of
  the node object.
\<close>

datatype ElementAnchors =
  AnchorContent | AnchorElement | AnchorIcon | AnchorLabel | AnchorPlaceholder

datatype HTMLElement = HTMLElement
  (nodeRef: nat) (attributes: "(ElementAnchors \<times> string) list")
  (parentElement: "HTMLElement option")

definition getAttribute :: "HTMLElement \<Rightarrow> ElementAnchors \<Rightarrow> string option" where
  "getAttribute el a = map_of (attributes el) a"

text \<open>\<^verbatim>\<open>el.matches(`[${anchor}]`)\<close>: the node carries the attribute.\<close>

definition matches :: "HTMLElement \<Rightarrow> ElementAnchors \<Rightarrow> bool" where
  "matches el a = (getAttribute el a \<noteq> None)"

text \<open>\<^verbatim>\<open>Node.contains\<close>: the node itself or one of its descendants.\<close>

fun contains :: "nat \<Rightarrow> HTMLElement \<Rightarrow> bool" where
  "contains r (HTMLElement r' as None) = (r = r')"
| "contains r (HTMLElement r' as (Some p)) = (r = r' \<or> contains r p)"

text \<open>\<^verbatim>\<open>document.body\<close> is a node of its own.\<close>

definition documentBody :: nat where
  "documentBody = 0"

record Event =
  target :: HTMLElement

record DragEvent = Event +
  dropEffect :: "string option"

record KeyboardEvent = Event +
  keyCode :: nat
  propagationStopped :: bool

subsection \<open>The view store and the element objects the handlers change\<close>

text \<open>
  Modelled from the spec: the state of a \<^verbatim>\<open>Model.Element\<close> object (sections 3 and 6).
  The handlers reach element objects through the store, by identity, and change their
  flags in place: the store holds the objects, and a change of an object is a change of
  the store. An object carries what the handlers read from it: its name (current and
  before the edit), its two highlight flags, its parent, its container and its index in
  the container (\<^verbatim>\<open>getContainer\<close>, \<^verbatim>\<open>getIndex\<close>, read at the type
  \<^verbatim>\<open>number\<close> as \<^verbatim>\<open>calculateDropIndex\<close> does), and its contents by slot type.
\<close>

record ElementObj =
  elementId :: ident
  currentName :: string
  uneditedName :: string
  highlighted :: bool
  placeholderHighlighted :: bool
  parentId :: "ident option"
  getContainer :: "ident option"
  getIndex :: int
  contentBySlotType :: "(SlotType \<times> ident) list"

record ElementContentObj =
  contentId :: ident
  contentElements :: "ident list"

text \<open>
  The commands the element list submits: \<^verbatim>\<open>new Model.ElementNameCommand(element, name)\<close>
  and \<^verbatim>\<open>Model.ElementLocationCommand.addChild({childId, contentId, index})\<close>.
\<close>

datatype Command =
  ElementNameCommand ident string
| ElementLocationCommand ident ident int

text \<open>
  Modelled from the spec: \<^verbatim>\<open>Store.ViewStore\<close> (imported from \<^verbatim>\<open>store\<close>). Section 3
  gives the global state at most one dragged element and at most one selected or edited
  element, so each is one optional identity and a new assignment replaces the holder
  (section 5). The executor is external (section 6): \<open>executed\<close> is the sequence of
  commands submitted to it.
\<close>

record ViewStore =
  elements :: "ElementObj list"
  contents :: "ElementContentObj list"
  draggedElementId :: "ident option"
  selectedElementId :: "ident option"
  nameEditableElementId :: "ident option"
  executed :: "Command list"
  getDragging :: bool

text \<open>
  Modelled from the spec: the lookups of \<^verbatim>\<open>Store.ViewStore\<close> in the live model index
  (section 4.2; absent when the identity is not indexed) and its getters of the dragged,
  the selected and the name-editable element.
\<close>

definition getElementById :: "ViewStore \<Rightarrow> ident \<Rightarrow> ElementObj option" where
  "getElementById store i = find (\<lambda>e. elementId e = i) (elements store)"

definition getContentById :: "ViewStore \<Rightarrow> ident \<Rightarrow> ElementContentObj option" where
  "getContentById store i = find (\<lambda>c. contentId c = i) (contents store)"

definition getDraggedElement :: "ViewStore \<Rightarrow> ElementObj option" where
  "getDraggedElement store =
     (case draggedElementId store of None \<Rightarrow> None | Some i \<Rightarrow> getElementById store i)"

definition getSelectedElement :: "ViewStore \<Rightarrow> ElementObj option" where
  "getSelectedElement store =
     (case selectedElementId store of None \<Rightarrow> None | Some i \<Rightarrow> getElementById store i)"

definition getNameEditableElement :: "ViewStore \<Rightarrow> ElementObj option" where
  "getNameEditableElement store =
     (case nameEditableElementId store of None \<Rightarrow> None | Some i \<Rightarrow> getElementById store i)"

text \<open>
  Modelled from the spec: \<^verbatim>\<open>store.setSelectedElement\<close>; the new selection replaces the
  previous one (sections 4.5 and 5).
\<close>

definition setSelectedElement :: "ElementObj \<Rightarrow> ViewStore \<Rightarrow> ViewStore" where
  "setSelectedElement element store = store\<lparr>selectedElementId := Some (elementId element)\<rparr>"

text \<open>
  Modelled from the spec: \<^verbatim>\<open>store.setNameEditableElement\<close>; called without an argument
  (or with an absent element) it leaves no element edited (section 4.5).
\<close>

definition setNameEditableElement :: "ElementObj option \<Rightarrow> ViewStore \<Rightarrow> ViewStore" where
  "setNameEditableElement element store =
     store\<lparr>nameEditableElementId := map_option elementId element\<rparr>"

text \<open>
  Modelled from the spec: \<^verbatim>\<open>store.execute\<close> submits the command to the external
  executor (section 6); what the executor does to the model is outside the element list.
\<close>

definition execute :: "Command \<Rightarrow> ViewStore \<Rightarrow> ViewStore" where
  "execute command store = store\<lparr>executed := executed store @ [command]\<rparr>"

text \<open>
  Modelled from the spec: the setters and links of \<^verbatim>\<open>Model.Element\<close> the handlers
  call (section 6: flags with get/set, name, parent link, content lookup). A setter
  changes the object of that identity and no other.
\<close>

definition updateElement ::
  "ident \<Rightarrow> (ElementObj \<Rightarrow> ElementObj) \<Rightarrow> ViewStore \<Rightarrow> ViewStore" where
  "updateElement i f store =
     store\<lparr>elements := map (\<lambda>e. if elementId e = i then f e else e) (elements store)\<rparr>"

definition setHighlighted :: "ElementObj \<Rightarrow> bool \<Rightarrow> ViewStore \<Rightarrow> ViewStore" where
  "setHighlighted element b = updateElement (elementId element) (\<lambda>e. e\<lparr>highlighted := b\<rparr>)"

definition setPlaceholderHighlighted :: "ElementObj \<Rightarrow> bool \<Rightarrow> ViewStore \<Rightarrow> ViewStore" where
  "setPlaceholderHighlighted element b =
     updateElement (elementId element) (\<lambda>e. e\<lparr>placeholderHighlighted := b\<rparr>)"

definition setName :: "ElementObj \<Rightarrow> string \<Rightarrow> ViewStore \<Rightarrow> ViewStore" where
  "setName element n = updateElement (elementId element) (\<lambda>e. e\<lparr>currentName := n\<rparr>)"

definition getParent :: "ViewStore \<Rightarrow> ElementObj \<Rightarrow> ElementObj option" where
  "getParent store element =
     (case parentId element of None \<Rightarrow> None | Some p \<Rightarrow> getElementById store p)"

definition getContentBySlotType ::
  "ViewStore \<Rightarrow> ElementObj \<Rightarrow> SlotType \<Rightarrow> ElementContentObj option" where
  "getContentBySlotType store element ty =
     (case map_of (contentBySlotType element) ty of
        None \<Rightarrow> None
      | Some c \<Rightarrow> getContentById store c)"

subsection \<open>The component and the window it listens on\<close>

text \<open>
  A listener is a function object: its reference and what it calls. The window keeps the
  registered (event type, listener) pairs; registering a pair twice registers it once,
  as \<^verbatim>\<open>addEventListener\<close> does.
\<close>

datatype ListenerBody = CallHandleKeyDown | CallUnsetDraggedElement

datatype Listener = Listener (listenerRef: nat) (listenerBody: ListenerBody)

record Window =
  listeners :: "(string \<times> Listener) list"
  allocated :: nat

definition addEventListener :: "string \<Rightarrow> Listener \<Rightarrow> Window \<Rightarrow> Window" where
  "addEventListener ty l w =
     (if (ty, l) \<in> set (listeners w) then w else w\<lparr>listeners := listeners w @ [(ty, l)]\<rparr>)"

definition removeEventListener :: "string \<Rightarrow> Listener \<Rightarrow> Window \<Rightarrow> Window" where
  "removeEventListener ty l w = w\<lparr>listeners := removeAll (ty, l) (listeners w)\<rparr>"

record ElementList =
  dragImg :: "HTMLElement option"
  globalDragEndListener :: "Listener option"
  globalDropListener :: "Listener option"
  globalKeyDownListener :: "Listener option"
  ref :: "nat option"
  stateDragging :: bool

section \<open>The projection of the element tree\<close>

text \<open>
  \<^verbatim>\<open>xs.map(f).filter(x => typeof x !== 'undefined')\<close>: the results that are present, in
  order.
\<close>

definition defined :: "'a option list \<Rightarrow> 'a list" where
  "defined xs = map the (filter (\<lambda>x. x \<noteq> None) xs)"

lemma getContentBySlotId_size:
  assumes "getContentBySlotId element sid = Some c" and "x \<in> set (getElements c)"
  shows "size x < size element"
proof -
  from assms(1) have "c \<in> set (getContents element)"
    by (auto simp: getContentBySlotId_def find_Some_iff)
  then have "size c \<le> size_list size (getContents element)"
    by (rule size_list_estimation') simp
  moreover have "size x < size c"
    using assms(2) by (cases c) (auto simp: less_Suc_eq_le intro: size_list_estimation')
  moreover have "size_list size (getContents element) < size element"
    by (cases element) simp
  ultimately show ?thesis by linarith
qed

text \<open>
  \<^verbatim>\<open>createItemFromElement\<close> and \<^verbatim>\<open>createItemFromSlot\<close>. \<^verbatim>\<open>partition\<close> is lodash's:
  the slots of type Children first, the others second, each in pattern order;
  \<^verbatim>\<open>[[defaultSlotData], slotsData]\<close> takes the first slot of type Children, if any.
  The closure \<^verbatim>\<open>createSlot\<close> is written out where it is called. \<open>defaultSlot\<close> is
  read for its children only.
\<close>

function createItemFromElement :: "ViewStore \<Rightarrow> Element \<Rightarrow> ElementNodeProps option"
  and createItemFromSlot :: "ViewStore \<Rightarrow> PatternSlot \<Rightarrow> Element \<Rightarrow> ElementNodeProps option"
  where
  "createItemFromElement store element =
     (case getPattern element of
        None \<Rightarrow> None
      | Some pattern \<Rightarrow>
          (case partition (\<lambda>slot. slotType slot = Children) (getSlots pattern) of
             (defaults, slotsData) \<Rightarrow>
               (let defaultSlot =
                      (case defaults of
                         [] \<Rightarrow> Some []
                       | defaultSlotData # _ \<Rightarrow>
                           map_option children (createItemFromSlot store defaultSlotData element));
                    children' = (case defaultSlot of None \<Rightarrow> [] | Some cs \<Rightarrow> cs);
                    slots =
                      defined (map (\<lambda>slot. createItemFromSlot store slot element) slotsData)
                in Some (ElementNodeProps
                     (getSelected element)
                     (slots @ children')
                     (\<not> isNameEditable element)
                     (getDragging store)
                     (isNameEditable element)
                     (getHighlighted element)
                     (getPlaceholderHighlighted element)
                     (getId element)
                     (getName element)
                     (getOpen element \<or> list_ex getSelected (getDescendants element))))))"
| "createItemFromSlot store slot element =
     (case getContentBySlotId element (slotId slot) of
        None \<Rightarrow> None
      | Some slotContent \<Rightarrow>
          Some (ElementNodeProps
            False
            (defined (map (\<lambda>e. createItemFromElement store e) (getElements slotContent)))
            False
            (getDragging store)
            False
            (getHighlighted element)
            False
            (contentGetId slotContent)
            (slotName slot)
            True))"
  by pat_completeness auto
termination
  by (relation "measure (\<lambda>x. case x of
            Inl (s, e) \<Rightarrow> 2 * size e + 1
          | Inr (s, sl, e) \<Rightarrow> 2 * size e)")
     (auto dest: getContentBySlotId_size)

declare createItemFromElement.simps [simp del] createItemFromSlot.simps [simp del]

section \<open>Resolving the target of an event\<close>

text \<open>
  \<^verbatim>\<open>above\<close>: the nearest node, from the given one upwards, that matches the selector;
  null when the chain of parents ends first.
\<close>

fun above :: "HTMLElement \<Rightarrow> ElementAnchors \<Rightarrow> HTMLElement option" where
  "above (HTMLElement r as None) selector =
     (if matches (HTMLElement r as None) selector then Some (HTMLElement r as None) else None)"
| "above (HTMLElement r as (Some p)) selector =
     (if matches (HTMLElement r as (Some p)) selector then Some (HTMLElement r as (Some p))
      else above p selector)"

definition elementFromTarget :: "ViewStore \<Rightarrow> HTMLElement \<Rightarrow> bool \<Rightarrow> ElementObj option" where
  "elementFromTarget store tgt sibling =
     (case above tgt AnchorElement of
        None \<Rightarrow> None
      | Some el \<Rightarrow>
          (case getAttribute el AnchorElement of
             None \<Rightarrow> None
           | Some i \<Rightarrow>
               (case getElementById store i of
                  None \<Rightarrow> None
                | Some element \<Rightarrow> if sibling then getParent store element else Some element)))"

definition contentFromTarget ::
  "ViewStore \<Rightarrow> HTMLElement \<Rightarrow> bool \<Rightarrow> ElementContentObj option" where
  "contentFromTarget store tgt sibling =
     (case above tgt AnchorContent of
        None \<Rightarrow> None
      | Some el \<Rightarrow>
          (case getAttribute el AnchorElement of
             None \<Rightarrow> None
           | Some i \<Rightarrow>
               (case getContentById store i of
                  Some content \<Rightarrow> Some content
                | None \<Rightarrow>
                    (case getElementById store i of
                       None \<Rightarrow> None
                     | Some element \<Rightarrow>
                         (case (if sibling then getParent store element else Some element) of
                            None \<Rightarrow> None
                          | Some base \<Rightarrow> getContentBySlotType store base Children)))))"

section \<open>The drop index\<close>

definition calculateDropIndex :: "ElementObj \<Rightarrow> ElementObj \<Rightarrow> int" where
  "calculateDropIndex dragged target' =
     (let newIndex = getIndex target' in
      if getContainer dragged \<noteq> getContainer target' then newIndex
      else
        let currentIndex = getIndex dragged in
        if newIndex > currentIndex then newIndex - 1 else newIndex)"

text \<open>The closure \<^verbatim>\<open>getDropIndex\<close> of \<^verbatim>\<open>handleDrop\<close>.\<close>

definition getDropIndex ::
  "bool \<Rightarrow> ElementContentObj \<Rightarrow> ElementObj \<Rightarrow> ElementObj \<Rightarrow> int" where
  "getDropIndex isSiblingDrop dropTargetContent rawTargetElement draggedElement =
     (if \<not> isSiblingDrop then int (length (contentElements dropTargetContent))
      else calculateDropIndex draggedElement rawTargetElement)"

section \<open>The drag handlers\<close>

text \<open>
  \<^verbatim>\<open>Element.accepts\<close> belongs to the model and is not part of this file: the handlers
  take it as the parameter \<open>accepts\<close>, called as \<open>accepts target dragged\<close>. In the same
  way \<^verbatim>\<open>store.addElement\<close> is the parameter \<open>addElement\<close> of \<^verbatim>\<open>handleDrop\<close>.
\<close>

definition handleDragEnd :: "ElementList \<Rightarrow> ElementList" where
  "handleDragEnd this =
     (let this' = this\<lparr>stateDragging := False\<rparr> in
      case dragImg this' of
        None \<Rightarrow> this'
      | Some img \<Rightarrow>
          (case parentElement img of
             None \<Rightarrow> this'
           | Some p \<Rightarrow>
               this'\<lparr>dragImg := Some (HTMLElement (nodeRef img) (attributes img) None)\<rparr>))"

definition handleDragLeave :: "DragEvent \<Rightarrow> ViewStore \<Rightarrow> ViewStore" where
  "handleDragLeave e store =
     (case elementFromTarget store (target e) False of
        None \<Rightarrow> store
      | Some targetElement \<Rightarrow>
          setPlaceholderHighlighted targetElement False
            (setHighlighted targetElement False store))"

definition handleDragOver ::
  "(ElementObj \<Rightarrow> ElementObj \<Rightarrow> bool) \<Rightarrow> DragEvent \<Rightarrow> ViewStore \<Rightarrow> DragEvent \<times> ViewStore"
  where
  "handleDragOver accepts e store =
     (let isSibling = (getAttribute (target e) AnchorPlaceholder = Some ''true'');
          targetParentElement = elementFromTarget store (target e) isSibling;
          visualTargetElement = elementFromTarget store (target e) False;
          draggedElement = getDraggedElement store
      in case targetParentElement of
           None \<Rightarrow> (e, store)
         | Some targetParent \<Rightarrow>
             (case visualTargetElement of
                None \<Rightarrow> (e, store)
              | Some visualTarget \<Rightarrow>
                  (case draggedElement of
                     None \<Rightarrow>
                       (e, setPlaceholderHighlighted visualTarget False
                             (setHighlighted visualTarget False store))
                   | Some dragged \<Rightarrow>
                       if \<not> accepts targetParent dragged then (e, store)
                       else
                         (e\<lparr>dropEffect := Some ''copy''\<rparr>,
                          setPlaceholderHighlighted visualTarget isSibling
                            (setHighlighted visualTarget (\<not> isSibling) store)))))"

definition handleDrop ::
  "(ElementObj \<Rightarrow> ElementObj \<Rightarrow> bool) \<Rightarrow> (ElementObj \<Rightarrow> ViewStore \<Rightarrow> ViewStore) \<Rightarrow>
   ElementList \<Rightarrow> DragEvent \<Rightarrow> ViewStore \<Rightarrow> ElementList \<times> ViewStore" where
  "handleDrop accepts addElement this e store =
     (let this' = handleDragEnd this;
          isSiblingDrop = (getAttribute (target e) AnchorPlaceholder = Some ''true'');
          rawTargetElement = elementFromTarget store (target e) False;
          dropTargetElement = elementFromTarget store (target e) isSiblingDrop;
          dropTargetContent = contentFromTarget store (target e) isSiblingDrop;
          draggedElement = getDraggedElement store
      in case rawTargetElement of
           None \<Rightarrow> (this', store)
         | Some rawTarget \<Rightarrow>
         (case dropTargetElement of
           None \<Rightarrow> (this', store)
         | Some dropTarget \<Rightarrow>
         (case dropTargetContent of
           None \<Rightarrow> (this', store)
         | Some dropContent \<Rightarrow>
         (case draggedElement of
           None \<Rightarrow> (this', store)
         | Some dragged \<Rightarrow>
             if \<not> accepts dropTarget dragged then (this', store)
             else
               let index = getDropIndex isSiblingDrop dropContent rawTarget dragged in
               if index = - 1 then (this', store)
               else
                 let store1 =
                       (if list_ex (\<lambda>el. elementId el = elementId dragged) (elements store)
                        then addElement dragged store else store);
                     command =
                       ElementLocationCommand (elementId dragged) (contentId dropContent) index;
                     store2 = execute command store1
                 in (this', setSelectedElement dragged store2)))))"

section \<open>The key handler\<close>

text \<open>
  The handler returns the event, with \<^verbatim>\<open>stopPropagation\<close> recorded on it, and the store.
  \<^verbatim>\<open>getName()\<close> is the current name of the element, \<^verbatim>\<open>getName({ unedited: true })\<close>
  its name before the edit.
\<close>

definition handleKeyDown ::
  "ElementList \<Rightarrow> KeyboardEvent \<Rightarrow> ViewStore \<Rightarrow> KeyboardEvent \<times> ViewStore" where
  "handleKeyDown this e store =
     (let node = target e;
          contains' = (\<lambda>tgt. case ref this of None \<Rightarrow> False | Some r \<Rightarrow> contains r tgt)
      in if nodeRef (target e) \<noteq> documentBody \<and> \<not> contains' node then (e, store)
         else if keyCode e = 13 then
           (let e' = e\<lparr>propagationStopped := True\<rparr>;
                editableElement = getNameEditableElement store;
                selectedElement = getSelectedElement store
            in case editableElement of
                 Some editableElement' \<Rightarrow>
                   (e', setNameEditableElement None
                          (execute (ElementNameCommand (elementId editableElement') (currentName editableElement'))
                             store))
               | None \<Rightarrow> (e', setNameEditableElement selectedElement store))
         else if keyCode e = 27 then
           (let e' = e\<lparr>propagationStopped := True\<rparr>;
                editableElement = getNameEditableElement store
            in case editableElement of
                 Some editableElement' \<Rightarrow>
                   (let name = uneditedName editableElement';
                        store1 = setNameEditableElement None store
                    in (e', setName editableElement' name store1))
               | None \<Rightarrow> (e', store))
         else (e, store))"

section \<open>Mounting and unmounting\<close>

text \<open>
  \<^verbatim>\<open>componentDidMount\<close> creates two function objects, the key listener and the listener
  that unsets the dragged element; the drop listener is the second one again.
\<close>

definition componentDidMount :: "ElementList \<Rightarrow> Window \<Rightarrow> ElementList \<times> Window" where
  "componentDidMount this w =
     (let keyDownListener = Listener (allocated w) CallHandleKeyDown;
          dragEndListener = Listener (Suc (allocated w)) CallUnsetDraggedElement;
          this' = this\<lparr>globalKeyDownListener := Some keyDownListener,
                       globalDragEndListener := Some dragEndListener,
                       globalDropListener := Some dragEndListener\<rparr>;
          w0 = w\<lparr>allocated := Suc (Suc (allocated w))\<rparr>;
          w1 = addEventListener ''keydown'' keyDownListener w0;
          w2 = addEventListener ''drop'' dragEndListener w1;
          w3 = addEventListener ''dragend'' dragEndListener w2
      in (this', w3))"

definition componentWillUnmount :: "ElementList \<Rightarrow> Window \<Rightarrow> Window" where
  "componentWillUnmount this w =
     (let w1 = (case globalDropListener this of
                  Some l \<Rightarrow> removeEventListener ''drop'' l w
                | None \<Rightarrow> w);
          w2 = (case globalDragEndListener this of
                  Some l \<Rightarrow> removeEventListener ''drop'' l w1
                | None \<Rightarrow> w1);
          w3 = (case globalKeyDownListener this of
                  Some l \<Rightarrow> removeEventListener ''keydown'' l w2
                | None \<Rightarrow> w2)
      in w3)"

section \<open>Example data\<close>

text \<open>
  A root element whose pattern declares the default slot first and a named slot second.
  The default slot holds two elements, the second of them selected; the named slot holds
  one. No flag of the root is set.
\<close>

definition leaf :: "ident \<Rightarrow> bool \<Rightarrow> Element" where
  "leaf i sel = Element i i False sel False False False (Some (Pattern [])) []"

definition exPattern :: Pattern where
  "exPattern = Pattern
     [\<lparr>slotId = ''slot-default'', slotName = ''Children'', slotType = Children\<rparr>,
      \<lparr>slotId = ''slot-header'', slotName = ''Header'', slotType = Named\<rparr>]"

definition exRoot :: Element where
  "exRoot = Element ''root'' ''Root'' False False False False False (Some exPattern)
     [ElementContent ''content-default'' ''slot-default''
        [leaf ''child0'' False, leaf ''child1'' True],
      ElementContent ''content-header'' ''slot-header'' [leaf ''head0'' False]]"

text \<open>An element whose pattern declares named slots only, one of them bound to a content.\<close>

definition exNamedOnly :: Element where
  "exNamedOnly = Element ''card'' ''Card'' False True False False False
     (Some (Pattern
        [\<lparr>slotId = ''slot-header'', slotName = ''Header'', slotType = Named\<rparr>,
         \<lparr>slotId = ''slot-footer'', slotName = ''Footer'', slotType = Named\<rparr>]))
     [ElementContent ''content-footer'' ''slot-footer'' [leaf ''foot0'' False]]"

text \<open>
  A sparse element: its pattern declares the default slot, a header and a footer; the
  footer is bound to no content, and the default slot holds an element without a pattern
  between two elements that have one.
\<close>

definition exGhost :: Element where
  "exGhost = Element ''ghost'' ''Ghost'' False False False False False None []"

definition exSparsePattern :: Pattern where
  "exSparsePattern = Pattern
     [\<lparr>slotId = ''slot-default'', slotName = ''Children'', slotType = Children\<rparr>,
      \<lparr>slotId = ''slot-header'', slotName = ''Header'', slotType = Named\<rparr>,
      \<lparr>slotId = ''slot-footer'', slotName = ''Footer'', slotType = Named\<rparr>]"

definition exSparse :: Element where
  "exSparse = Element ''sparse'' ''Sparse'' False False False False False (Some exSparsePattern)
     [ElementContent ''content-default'' ''slot-default''
        [leaf ''child0'' False, exGhost, leaf ''child1'' False],
      ElementContent ''content-header'' ''slot-header'' [leaf ''head0'' False]]"

definition exObj :: "ident \<Rightarrow> ident option \<Rightarrow> ident option \<Rightarrow> int \<Rightarrow> ElementObj" where
  "exObj i p c k =
     \<lparr>elementId = i, currentName = i, uneditedName = i, highlighted = False,
      placeholderHighlighted = False, parentId = p, getContainer = c, getIndex = k,
      contentBySlotType = []\<rparr>"

definition exStore :: ViewStore where
  "exStore =
     \<lparr>elements = [], contents = [], draggedElementId = None, selectedElementId = None,
      nameEditableElementId = None, executed = [], getDragging = False\<rparr>"

text \<open>
  A store for the handlers: a root with the children a, b and d, in this order, in its
  default content; d is being dragged and a is selected. The document nodes of the rendered
  list are marked with the identities of their elements; the placeholder before a is a
  child node of a's node. The widget's root node is the node of the root element.
\<close>

definition exRootObj :: ElementObj where
  "exRootObj = (exObj ''root'' None None 0)\<lparr>contentBySlotType := [(Children, ''root-children'')]\<rparr>"

definition exA :: ElementObj where
  "exA = (exObj ''a'' (Some ''root'') (Some ''root-children'') 0)
           \<lparr>contentBySlotType := [(Children, ''a-children'')]\<rparr>"

definition exB :: ElementObj where
  "exB = (exObj ''b'' (Some ''root'') (Some ''root-children'') 1)
           \<lparr>contentBySlotType := [(Children, ''b-children'')], currentName := ''b edited''\<rparr>"

definition exD :: ElementObj where
  "exD = exObj ''d'' (Some ''root'') (Some ''root-children'') 2"

definition exRootContent :: ElementContentObj where
  "exRootContent = \<lparr>contentId = ''root-children'', contentElements = [''a'', ''b'', ''d'']\<rparr>"

definition exDragStore :: ViewStore where
  "exDragStore =
     \<lparr>elements = [exRootObj, exA, exB, exD],
      contents =
        [exRootContent,
         \<lparr>contentId = ''a-children'', contentElements = []\<rparr>,
         \<lparr>contentId = ''b-children'', contentElements = []\<rparr>],
      draggedElementId = Some ''d'', selectedElementId = Some ''a'',
      nameEditableElementId = None, executed = [], getDragging = True\<rparr>"

text \<open>The same elements with nothing dragged and b selected, its name being edited.\<close>

definition exEditStore :: ViewStore where
  "exEditStore =
     exDragStore\<lparr>draggedElementId := None, selectedElementId := Some ''b'',
       nameEditableElementId := Some ''b'', getDragging := False\<rparr>"

definition exAccepts :: "ElementObj \<Rightarrow> ElementObj \<Rightarrow> bool" where
  "exAccepts target' dragged = (elementId target' \<noteq> elementId dragged)"

definition exAddElement :: "ElementObj \<Rightarrow> ViewStore \<Rightarrow> ViewStore" where
  "exAddElement element store =
     (if list_ex (\<lambda>el. elementId el = elementId element) (elements store) then store
      else store\<lparr>elements := elements store @ [element]\<rparr>)"

definition bodyNode :: HTMLElement where
  "bodyNode = HTMLElement 0 [] None"

definition rootNode :: HTMLElement where
  "rootNode =
     HTMLElement 1 [(AnchorElement, ''root''), (AnchorContent, ''true'')] (Some bodyNode)"

definition nodeA :: HTMLElement where
  "nodeA = HTMLElement 2 [(AnchorElement, ''a''), (AnchorContent, ''true'')] (Some rootNode)"

definition nodeB :: HTMLElement where
  "nodeB = HTMLElement 3 [(AnchorElement, ''b''), (AnchorContent, ''true'')] (Some rootNode)"

definition placeholderA :: HTMLElement where
  "placeholderA = HTMLElement 4 [(AnchorPlaceholder, ''true'')] (Some nodeA)"

text \<open>A node of the document outside the widget.\<close>

definition outsideNode :: HTMLElement where
  "outsideNode = HTMLElement 9 [] (Some bodyNode)"

definition exDrag :: "HTMLElement \<Rightarrow> DragEvent" where
  "exDrag n = \<lparr>target = n, dropEffect = None\<rparr>"

definition exKey :: "HTMLElement \<Rightarrow> nat \<Rightarrow> KeyboardEvent" where
  "exKey n k = \<lparr>target = n, keyCode = k, propagationStopped = False\<rparr>"

definition exList :: ElementList where
  "exList =
     \<lparr>dragImg = None, globalDragEndListener = None, globalDropListener = None,
      globalKeyDownListener = None, ref = Some 1, stateDragging = True\<rparr>"

definition exWindow :: Window where
  "exWindow = \<lparr>listeners = [], allocated = 0\<rparr>"

lemmas store_defs =
  getElementById_def getContentById_def getDraggedElement_def getSelectedElement_def
  getNameEditableElement_def setSelectedElement_def setNameEditableElement_def execute_def
  updateElement_def setHighlighted_def setPlaceholderHighlighted_def setName_def
  getParent_def getContentBySlotType_def

lemmas target_defs = elementFromTarget_def contentFromTarget_def getAttribute_def matches_def

section \<open>The drop index relative to a sibling\<close>

text \<open>
  C1. The drop index computed for a dragged element and the sibling it is dropped beside is
  the sibling's index in its container when the two containers differ; when they are the
  same container it is the sibling's index less one if that index is strictly greater than
  the dragged element's index, and the sibling's index otherwise.
\<close>

theorem calculateDropIndex_result:
  "(getContainer dragged \<noteq> getContainer target' \<longrightarrow>
      calculateDropIndex dragged target' = getIndex target') \<and>
   (getContainer dragged = getContainer target' \<and> getIndex target' > getIndex dragged \<longrightarrow>
      calculateDropIndex dragged target' = getIndex target' - 1) \<and>
   (getContainer dragged = getContainer target' \<and> \<not> getIndex target' > getIndex dragged \<longrightarrow>
      calculateDropIndex dragged target' = getIndex target')"
  by (simp add: calculateDropIndex_def Let_def)

text \<open>
  The three cases at the indices of the specification: from another container to index 2;
  forwards in one container from index 3 to the sibling at index 5; backwards from index 5
  to the sibling at index 1.
\<close>

theorem calculateDropIndex_result_witness:
  "calculateDropIndex (exObj ''d'' None (Some ''A'') 0) (exObj ''t'' None (Some ''B'') 2) = 2 \<and>
   calculateDropIndex (exObj ''d'' None (Some ''A'') 3) (exObj ''t'' None (Some ''A'') 5) = 4 \<and>
   calculateDropIndex (exObj ''d'' None (Some ''A'') 5) (exObj ''t'' None (Some ''A'') 1) = 1"
  using calculateDropIndex_result [of "exObj ''d'' None (Some ''A'') 0" "exObj ''t'' None (Some ''B'') 2"]
    calculateDropIndex_result [of "exObj ''d'' None (Some ''A'') 3" "exObj ''t'' None (Some ''A'') 5"]
    calculateDropIndex_result [of "exObj ''d'' None (Some ''A'') 5" "exObj ''t'' None (Some ''A'') 1"]
  by (simp add: exObj_def)

section \<open>The children of a projected element\<close>

lemma find_filter_case:
  "find P xs = (case filter P xs of [] \<Rightarrow> None | x # _ \<Rightarrow> Some x)"
  by (induction xs) auto

text \<open>
  The children list in the specification's words, written without the functions of the
  element list. The pseudo-node of a named slot bound to a content: not active, not
  draggable, not editable, always open, with the identity of the content and the name of
  the slot as its title, and the projections of the content's elements as its children. A
  named slot without a content has no pseudo-node, and an element without a pattern has
  no projection: neither takes a place in a list.
\<close>

definition namedSlotNode ::
  "ViewStore \<Rightarrow> Element \<Rightarrow> PatternSlot \<Rightarrow> ElementContent \<Rightarrow> ElementNodeProps" where
  "namedSlotNode store element slot content =
     ElementNodeProps False
       (List.map_filter (createItemFromElement store) (getElements content))
       False (getDragging store) False (getHighlighted element) False
       (contentGetId content) (slotName slot) True"

definition namedSlotNodes :: "ViewStore \<Rightarrow> Element \<Rightarrow> Pattern \<Rightarrow> ElementNodeProps list" where
  "namedSlotNodes store element pattern =
     List.map_filter
       (\<lambda>slot. map_option (namedSlotNode store element slot)
                 (getContentBySlotId element (slotId slot)))
       (filter (\<lambda>slot. slotType slot \<noteq> Children) (getSlots pattern))"

definition defaultSlotChildren ::
  "ViewStore \<Rightarrow> Element \<Rightarrow> Pattern \<Rightarrow> ElementNodeProps list" where
  "defaultSlotChildren store element pattern =
     (case find (\<lambda>slot. slotType slot = Children) (getSlots pattern) of
        None \<Rightarrow> []
      | Some defaultSlot \<Rightarrow>
          (case getContentBySlotId element (slotId defaultSlot) of
             None \<Rightarrow> []
           | Some content \<Rightarrow>
               List.map_filter (createItemFromElement store) (getElements content)))"

text \<open>The source's filter of the results that are present keeps exactly those.\<close>

lemma defined_map: "defined (map f xs) = List.map_filter f xs"
  by (induction xs) (auto simp: defined_def map_filter_simps)

lemma createItemFromSlot_node:
  "createItemFromSlot store slot element =
     map_option (namedSlotNode store element slot) (getContentBySlotId element (slotId slot))"
  by (simp add: createItemFromSlot.simps namedSlotNode_def defined_map split: option.splits)

text \<open>
  C2. An element with a pattern is projected, and the children of its item are exactly the
  pseudo-nodes of the named slots, in pattern order, followed by the projections of the
  elements of the default slot, in stored order: one child for every named slot bound to
  a content and one for every element of the default slot that has a pattern, and no
  other.
\<close>

theorem createItemFromElement_children:
  assumes "getPattern element = Some pattern"
  shows "\<exists>item. createItemFromElement store element = Some item \<and>
           children item =
             namedSlotNodes store element pattern @ defaultSlotChildren store element pattern"
proof -
  let ?P = "\<lambda>slot. slotType slot = Children"
  have named: "filter (Not \<circ> ?P) (getSlots pattern) =
      filter (\<lambda>slot. slotType slot \<noteq> Children) (getSlots pattern)"
    by (simp add: comp_def)
  have slots: "defined (map (\<lambda>slot. createItemFromSlot store slot element)
        (filter (\<lambda>slot. slotType slot \<noteq> Children) (getSlots pattern))) =
      namedSlotNodes store element pattern"
    by (simp add: defined_map namedSlotNodes_def createItemFromSlot_node)
  show ?thesis
  proof (cases "filter ?P (getSlots pattern)")
    case Nil
    then have "find ?P (getSlots pattern) = None"
      by (simp add: find_filter_case)
    with Nil assms named slots show ?thesis
      by (simp add: createItemFromElement.simps defaultSlotChildren_def)
  next
    case (Cons d ds)
    then have f: "find ?P (getSlots pattern) = Some d"
      by (simp add: find_filter_case)
    show ?thesis
    proof (cases "getContentBySlotId element (slotId d)")
      case None
      with Cons f assms named slots show ?thesis
        by (simp add: createItemFromElement.simps createItemFromSlot_node
            defaultSlotChildren_def)
    next
      case (Some content)
      with Cons f assms named slots show ?thesis
        by (simp add: createItemFromElement.simps createItemFromSlot_node [of store d]
            namedSlotNode_def defaultSlotChildren_def)
    qed
  qed
qed

text \<open>
  On the example root, whose pattern lists the default slot before the named one, the
  children are the node of the named slot, then the two elements of the default slot. On
  the sparse example, whose footer slot has no content and whose default slot holds an
  element without a pattern between two others, the children are three: the node of the
  header, and the two elements that have a pattern.
\<close>

theorem createItemFromElement_children_witness:
  "getPattern exRoot = Some exPattern \<and>
   (\<exists>item. createItemFromElement exStore exRoot = Some item \<and>
      map id' (children item) = [''content-header'', ''child0'', ''child1'']) \<and>
   getPattern exSparse = Some exSparsePattern \<and>
   map slotName (getSlots exSparsePattern) = [''Children'', ''Header'', ''Footer''] \<and>
   getContentBySlotId exSparse ''slot-footer'' = None \<and>
   map getId (getElements (the (getContentBySlotId exSparse ''slot-default''))) =
     [''child0'', ''ghost'', ''child1''] \<and>
   (\<exists>item. createItemFromElement exStore exSparse = Some item \<and>
      map id' (children item) = [''content-header'', ''child0'', ''child1''] \<and>
      map title (children item) = [''Header'', ''child0'', ''child1''])"
proof -
  have p: "getPattern exRoot = Some exPattern"
    by (simp add: exRoot_def)
  have n: "map id' (namedSlotNodes exStore exRoot exPattern) = [''content-header'']"
    by (simp add: namedSlotNodes_def namedSlotNode_def map_filter_simps exRoot_def
        exPattern_def getContentBySlotId_def)
  have d: "map id' (defaultSlotChildren exStore exRoot exPattern) = [''child0'', ''child1'']"
    by (simp add: defaultSlotChildren_def createItemFromElement.simps map_filter_simps
        exRoot_def exPattern_def leaf_def defined_def getContentBySlotId_def)
  from createItemFromElement_children [OF p, of exStore]
  obtain item where i: "createItemFromElement exStore exRoot = Some item"
    and c: "children item =
      namedSlotNodes exStore exRoot exPattern @ defaultSlotChildren exStore exRoot exPattern"
    by blast
  have "map id' (children item) = [''content-header'', ''child0'', ''child1'']"
    unfolding c by (simp add: n d)
  with i have A: "\<exists>item. createItemFromElement exStore exRoot = Some item \<and>
      map id' (children item) = [''content-header'', ''child0'', ''child1'']"
    by (intro exI [of _ item] conjI)
  have p': "getPattern exSparse = Some exSparsePattern"
    by (simp add: exSparse_def)
  have s': "map slotName (getSlots exSparsePattern) = [''Children'', ''Header'', ''Footer'']"
    by (simp add: exSparsePattern_def)
  have f': "getContentBySlotId exSparse ''slot-footer'' = None"
    by (simp add: exSparse_def getContentBySlotId_def)
  have e': "map getId (getElements (the (getContentBySlotId exSparse ''slot-default''))) =
      [''child0'', ''ghost'', ''child1'']"
    by (simp add: exSparse_def getContentBySlotId_def leaf_def exGhost_def)
  have n': "map id' (namedSlotNodes exStore exSparse exSparsePattern) = [''content-header'']"
    "map title (namedSlotNodes exStore exSparse exSparsePattern) = [''Header'']"
    by (simp_all add: namedSlotNodes_def namedSlotNode_def map_filter_simps exSparse_def
        exSparsePattern_def getContentBySlotId_def)
  have d': "map id' (defaultSlotChildren exStore exSparse exSparsePattern) =
      [''child0'', ''child1'']"
    "map title (defaultSlotChildren exStore exSparse exSparsePattern) =
      [''child0'', ''child1'']"
    by (simp_all add: defaultSlotChildren_def createItemFromElement.simps map_filter_simps
        exSparse_def exSparsePattern_def leaf_def exGhost_def defined_def
        getContentBySlotId_def)
  from createItemFromElement_children [OF p', of exStore]
  obtain item' where i': "createItemFromElement exStore exSparse = Some item'"
    and c': "children item' =
      namedSlotNodes exStore exSparse exSparsePattern @
      defaultSlotChildren exStore exSparse exSparsePattern"
    by blast
  have "map id' (children item') = [''content-header'', ''child0'', ''child1'']"
    and "map title (children item') = [''Header'', ''child0'', ''child1'']"
    unfolding c' by (simp_all add: n' d')
  with i' have B: "\<exists>item. createItemFromElement exStore exSparse = Some item \<and>
      map id' (children item) = [''content-header'', ''child0'', ''child1''] \<and>
      map title (children item) = [''Header'', ''child0'', ''child1'']"
    by (intro exI [of _ item'] conjI)
  from p A p' s' f' e' B show ?thesis
    by (intro conjI)
qed

section \<open>The open flag of a projected element\<close>

lemma createItemFromElement_Some:
  "getPattern element = Some pattern \<Longrightarrow> \<exists>item. createItemFromElement store element = Some item"
  by (simp add: createItemFromElement.simps Let_def split: prod.splits)

text \<open>
  Every descendant is a proper part of the element, so the element is not among its own
  descendants.
\<close>

lemma descendants_smaller:
  "\<forall>d \<in> set (getDescendants e). size d < size e"
  "\<forall>d \<in> set (contentGetDescendants c). size d < size c"
proof (induction e and c)
  case (Element i n op se ed hi ph pa cs)
  show ?case
  proof
    fix d assume "d \<in> set (getDescendants (Element i n op se ed hi ph pa cs))"
    then obtain c where c: "c \<in> set cs" and d: "d \<in> set (contentGetDescendants c)"
      by auto
    from Element c d have "size d < size c" by blast
    moreover from c have "size c \<le> size_list size cs"
      by (rule size_list_estimation') simp
    ultimately show "size d < size (Element i n op se ed hi ph pa cs)" by simp
  qed
next
  case (ElementContent i s es)
  show ?case
  proof
    fix d assume "d \<in> set (contentGetDescendants (ElementContent i s es))"
    then obtain e where e: "e \<in> set es" and d: "d = e \<or> d \<in> set (getDescendants e)"
      by auto
    from ElementContent e d have "size d \<le> size e" by (auto simp: less_imp_le)
    moreover from e have "size e \<le> size_list size es"
      by (rule size_list_estimation') simp
    ultimately show "size d < size (ElementContent i s es)" by simp
  qed
qed

lemma element_not_own_descendant: "element \<notin> set (getDescendants element)"
  using descendants_smaller(1) [of element] by auto

text \<open>
  C4. The item of a projected element is open exactly when the element's own open flag is
  set or one of its descendants is selected; the descendants are strict, the element
  itself is not one of them.
\<close>

theorem createItemFromElement_open:
  assumes "createItemFromElement store element = Some item"
  shows "open' item = (getOpen element \<or> (\<exists>d \<in> set (getDescendants element). getSelected d))
         \<and> element \<notin> set (getDescendants element)"
proof -
  from assms obtain pattern where "getPattern element = Some pattern"
    by (cases "getPattern element") (simp_all add: createItemFromElement.simps)
  with assms have "open' item = (getOpen element \<or> list_ex getSelected (getDescendants element))"
    by (auto simp: createItemFromElement.simps Let_def split: prod.splits)
  then show ?thesis
    by (simp add: list_ex_iff element_not_own_descendant)
qed

text \<open>
  The example root is closed and its second child is selected: its item is open. The
  element with named slots only is selected itself, closed, and has no selected
  descendant: its item is not open.
\<close>

theorem createItemFromElement_open_witness:
  "(\<exists>item. createItemFromElement exStore exRoot = Some item \<and> \<not> getOpen exRoot \<and>
      map getId (filter getSelected (getDescendants exRoot)) = [''child1''] \<and> open' item) \<and>
   (\<exists>item. createItemFromElement exStore exNamedOnly = Some item \<and> getSelected exNamedOnly \<and>
      filter getSelected (getDescendants exNamedOnly) = [] \<and> \<not> open' item)"
proof -
  obtain item where i: "createItemFromElement exStore exRoot = Some item"
    using createItemFromElement_Some [of exRoot exPattern exStore] by (auto simp: exRoot_def)
  have o: "\<not> getOpen exRoot" by (simp add: exRoot_def)
  have d: "map getId (filter getSelected (getDescendants exRoot)) = [''child1'']"
    by (simp add: exRoot_def leaf_def)
  then have "filter getSelected (getDescendants exRoot) \<noteq> []"
    by auto
  then have "\<exists>d \<in> set (getDescendants exRoot). getSelected d"
    by (simp add: filter_empty_conv)
  with createItemFromElement_open [OF i] have 1: "open' item" by simp
  obtain item' where i': "createItemFromElement exStore exNamedOnly = Some item'"
    using createItemFromElement_Some [of exNamedOnly _ exStore] by (auto simp: exNamedOnly_def)
  have s: "getSelected exNamedOnly" "\<not> getOpen exNamedOnly" by (simp_all add: exNamedOnly_def)
  have d': "filter getSelected (getDescendants exNamedOnly) = []"
    by (simp add: exNamedOnly_def leaf_def)
  then have "\<not> (\<exists>d \<in> set (getDescendants exNamedOnly). getSelected d)"
    by (simp add: filter_empty_conv)
  with createItemFromElement_open [OF i'] s have 2: "\<not> open' item'" by simp
  have A: "\<exists>item. createItemFromElement exStore exRoot = Some item \<and> \<not> getOpen exRoot \<and>
      map getId (filter getSelected (getDescendants exRoot)) = [''child1''] \<and> open' item"
    using i o d 1 by (intro exI [of _ item] conjI)
  have B: "\<exists>item. createItemFromElement exStore exNamedOnly = Some item \<and>
      getSelected exNamedOnly \<and> filter getSelected (getDescendants exNamedOnly) = [] \<and>
      \<not> open' item"
    using i' s(1) d' 2 by (intro exI [of _ item'] conjI)
  from A B show ?thesis ..
qed

section \<open>Patterns without a default slot\<close>



section \<open>Reaching element objects through the store\<close>

lemma find_elementId:
  "find (\<lambda>e. elementId e = i) xs = Some v \<Longrightarrow> elementId v = i \<and> v \<in> set xs"
  by (auto simp: find_Some_iff)

lemma getElementById_elementId:
  "getElementById store i = Some v \<Longrightarrow> elementId v = i"
  by (auto simp: getElementById_def dest: find_elementId)

lemma getElementById_updateElement:
  assumes "\<And>x. elementId (f x) = elementId x"
  shows "getElementById (updateElement i f store) j =
           (if j = i then map_option f (getElementById store i) else getElementById store j)"
proof -
  have "find (\<lambda>e. elementId e = j) (map (\<lambda>e. if elementId e = i then f e else e) xs) =
          (if j = i then map_option f (find (\<lambda>e. elementId e = i) xs)
           else find (\<lambda>e. elementId e = j) xs)" for xs
    by (induction xs) (auto simp: assms)
  then show ?thesis
    by (simp add: getElementById_def updateElement_def)
qed

lemma getElementById_setNameEditableElement:
  "getElementById (setNameEditableElement x store) i = getElementById store i"
  by (simp add: getElementById_def setNameEditableElement_def)

lemma getDraggedElement_indexed:
  assumes "getDraggedElement store = Some dragged"
  shows "list_ex (\<lambda>el. elementId el = elementId dragged) (elements store)"
  using assms
  by (auto simp: getDraggedElement_def getElementById_def list_ex_iff split: option.splits
      dest: find_elementId)

text \<open>What the example events resolve to.\<close>

lemma ex_resolve:
  "elementFromTarget exDragStore nodeA False = Some exA"
  "elementFromTarget exDragStore nodeB False = Some exB"
  "elementFromTarget exDragStore rootNode False = Some exRootObj"
  "elementFromTarget exDragStore placeholderA False = Some exA"
  "elementFromTarget exDragStore placeholderA True = Some exRootObj"
  "contentFromTarget exDragStore rootNode False = Some exRootContent"
  "contentFromTarget exDragStore placeholderA True = Some exRootContent"
  "getDraggedElement exDragStore = Some exD"
  by (simp_all add: target_defs store_defs exDragStore_def exRootObj_def exA_def exB_def exD_def
      exObj_def exRootContent_def rootNode_def nodeA_def nodeB_def placeholderA_def bodyNode_def)

lemma ex_placeholder:
  "getAttribute nodeA AnchorPlaceholder = None"
  "getAttribute nodeB AnchorPlaceholder = None"
  "getAttribute rootNode AnchorPlaceholder = None"
  "getAttribute placeholderA AnchorPlaceholder = Some ''true''"
  by (simp_all add: getAttribute_def rootNode_def nodeA_def nodeB_def placeholderA_def)

lemma ex_accepts:
  "exAccepts exA exD" "exAccepts exB exD" "exAccepts exRootObj exD"
  by (simp_all add: exAccepts_def exA_def exB_def exD_def exRootObj_def exObj_def)

section \<open>Highlighting the target of a hover\<close>

text \<open>
  C3, as amended. On an accepted hover (an element is dragged and the target's parent
  accepts it) the handler sets the highlighted flag of the hovered element to the negation
  of the sibling mode and its placeholder flag to the sibling mode, and changes nothing
  else: every other element keeps its flags, and so does the rest of the store.
\<close>

theorem handleDragOver_accepted:
  assumes "isSibling = (getAttribute (target e) AnchorPlaceholder = Some ''true'')"
    and "elementFromTarget store (target e) isSibling = Some targetParent"
    and "elementFromTarget store (target e) False = Some visualTarget"
    and "getDraggedElement store = Some dragged"
    and "accepts targetParent dragged"
  shows "\<exists>store'. handleDragOver accepts e store = (e\<lparr>dropEffect := Some ''copy''\<rparr>, store') \<and>
           elements store' =
             map (\<lambda>el. if elementId el = elementId visualTarget
                        then el\<lparr>highlighted := \<not> isSibling, placeholderHighlighted := isSibling\<rparr>
                        else el) (elements store) \<and>
           store'\<lparr>elements := elements store\<rparr> = store"
  using assms
  by (simp add: handleDragOver_def Let_def setHighlighted_def setPlaceholderHighlighted_def
      updateElement_def comp_def if_distrib [of "\<lambda>el. el\<lparr>placeholderHighlighted := b\<rparr>" for b]
      cong: if_cong)

text \<open>
  Hovering over the placeholder before a while d is dragged: the parent of a accepts d,
  and a gets the placeholder highlight and no other; the other elements are as before.
\<close>

theorem handleDragOver_accepted_witness:
  "getAttribute (target (exDrag placeholderA)) AnchorPlaceholder = Some ''true'' \<and>
   elementFromTarget exDragStore (target (exDrag placeholderA)) True = Some exRootObj \<and>
   elementFromTarget exDragStore (target (exDrag placeholderA)) False = Some exA \<and>
   getDraggedElement exDragStore = Some exD \<and>
   exAccepts exRootObj exD \<and>
   elements (snd (handleDragOver exAccepts (exDrag placeholderA) exDragStore)) =
     [exRootObj, exA\<lparr>placeholderHighlighted := True\<rparr>, exB, exD]"
proof -
  have t: "target (exDrag placeholderA) = placeholderA"
    by (simp add: exDrag_def)
  have s: "True = (getAttribute (target (exDrag placeholderA)) AnchorPlaceholder = Some ''true'')"
    by (simp add: t ex_placeholder)
  from handleDragOver_accepted [OF s, of exDragStore exRootObj exA exD exAccepts]
  have "elements (snd (handleDragOver exAccepts (exDrag placeholderA) exDragStore)) =
          map (\<lambda>el. if elementId el = elementId exA
                     then el\<lparr>highlighted := False, placeholderHighlighted := True\<rparr>
                     else el) (elements exDragStore)"
    by (auto simp: t ex_resolve ex_accepts)
  also have "\<dots> = [exRootObj, exA\<lparr>placeholderHighlighted := True\<rparr>, exB, exD]"
    by (simp add: exDragStore_def exRootObj_def exA_def exB_def exD_def exObj_def)
  finally show ?thesis
    by (simp add: t ex_resolve ex_accepts ex_placeholder)
qed

text \<open>
  C3, as stated, fails: the handler clears no other element's highlight. With d dragged,
  an accepted hover over a followed by an accepted hover over b leaves both a and b
  highlighted (the elements are root, a, b, d).
\<close>

theorem handleDragOver_exclusive_counterexample:
  "dropEffect (fst (handleDragOver exAccepts (exDrag nodeA) exDragStore)) = Some ''copy'' \<and>
   dropEffect (fst (handleDragOver exAccepts (exDrag nodeB)
      (snd (handleDragOver exAccepts (exDrag nodeA) exDragStore)))) = Some ''copy'' \<and>
   map highlighted (elements (snd (handleDragOver exAccepts (exDrag nodeB)
      (snd (handleDragOver exAccepts (exDrag nodeA) exDragStore))))) =
     [False, True, True, False]"
  by (simp add: handleDragOver_def target_defs store_defs exDragStore_def exRootObj_def exA_def
      exB_def exD_def exObj_def exAccepts_def exDrag_def rootNode_def nodeA_def nodeB_def
      bodyNode_def)

text \<open>
  The highlight of the element the pointer leaves is cleared by the handler of the
  drag-leave event, which resets both flags of that element.
\<close>

lemma handleDragLeave_clears:
  assumes "elementFromTarget store (target e) False = Some targetElement"
  shows "elements (handleDragLeave e store) =
           map (\<lambda>el. if elementId el = elementId targetElement
                      then el\<lparr>highlighted := False, placeholderHighlighted := False\<rparr>
                      else el) (elements store)"
  using assms
  by (simp add: handleDragLeave_def setHighlighted_def setPlaceholderHighlighted_def
      updateElement_def comp_def cong: if_cong)

lemma hover_leave_hover_example:
  "map highlighted (elements (snd (handleDragOver exAccepts (exDrag nodeB)
      (handleDragLeave (exDrag nodeA)
         (snd (handleDragOver exAccepts (exDrag nodeA) exDragStore)))))) =
     [False, False, True, False]"
  by (simp add: handleDragOver_def handleDragLeave_def target_defs store_defs exDragStore_def
      exRootObj_def exA_def exB_def exD_def exObj_def exAccepts_def exDrag_def rootNode_def
      nodeA_def nodeB_def bodyNode_def)

section \<open>Dropping onto an element\<close>

text \<open>
  C6. A drop that is not relative to a sibling and passes the guards (the target and its
  content resolve, an element is dragged, the target accepts it) submits the command that
  adds the dragged element to the target's content at the index that is the content's
  current number of elements. The indices and containers of the dragged element and of the
  target are not read: the drop-index calculation of a sibling drop takes no part.
\<close>

theorem handleDrop_append:
  assumes "getAttribute (target e) AnchorPlaceholder \<noteq> Some ''true''"
    and "elementFromTarget store (target e) False = Some dropTarget"
    and "contentFromTarget store (target e) False = Some dropContent"
    and "getDraggedElement store = Some dragged"
    and "accepts dropTarget dragged"
  shows "snd (handleDrop accepts addElement this e store) =
           setSelectedElement dragged
             (execute
                (ElementLocationCommand (elementId dragged) (contentId dropContent)
                   (int (length (contentElements dropContent))))
                (addElement dragged store))"
  using assms getDraggedElement_indexed [OF assms(4)]
  by (simp add: handleDrop_def Let_def getDropIndex_def)

text \<open>
  Dropping d onto the root, whose default content holds three elements: the command adds
  d at index 3.
\<close>

theorem handleDrop_append_witness:
  "getAttribute (target (exDrag rootNode)) AnchorPlaceholder \<noteq> Some ''true'' \<and>
   elementFromTarget exDragStore (target (exDrag rootNode)) False = Some exRootObj \<and>
   contentFromTarget exDragStore (target (exDrag rootNode)) False = Some exRootContent \<and>
   getDraggedElement exDragStore = Some exD \<and>
   exAccepts exRootObj exD \<and>
   length (contentElements exRootContent) = 3 \<and>
   executed (snd (handleDrop exAccepts exAddElement exList (exDrag rootNode) exDragStore)) =
     [ElementLocationCommand ''d'' ''root-children'' 3]"
proof -
  have t: "target (exDrag rootNode) = rootNode"
    by (simp add: exDrag_def)
  have p: "getAttribute (target (exDrag rootNode)) AnchorPlaceholder \<noteq> Some ''true''"
    by (simp add: t ex_placeholder)
  have r: "elementFromTarget exDragStore (target (exDrag rootNode)) False = Some exRootObj"
    and c: "contentFromTarget exDragStore (target (exDrag rootNode)) False = Some exRootContent"
    by (simp_all add: t ex_resolve)
  have l: "length (contentElements exRootContent) = 3"
    by (simp add: exRootContent_def)
  have "executed (snd (handleDrop exAccepts exAddElement exList (exDrag rootNode) exDragStore)) =
      [ElementLocationCommand ''d'' ''root-children'' 3]"
    unfolding handleDrop_append [where accepts = exAccepts and addElement = exAddElement
        and this = exList, OF p r c ex_resolve(8) ex_accepts(3)]
    by (simp add: setSelectedElement_def execute_def exAddElement_def exDragStore_def
        exRootContent_def exD_def exObj_def)
  with p r c l show ?thesis
    by (simp add: ex_resolve ex_accepts)
qed

text \<open>
  C9. A drop that passes all guards (the raw target, the drop target and its content
  resolve, an element is dragged, the drop target accepts it, and the index is not -1)
  submits the command that moves the dragged element, and then the dragged element is the
  selection of the store, whatever was selected before.
\<close>

theorem handleDrop_selects_dragged:
  assumes "isSiblingDrop = (getAttribute (target e) AnchorPlaceholder = Some ''true'')"
    and "elementFromTarget store (target e) False = Some rawTarget"
    and "elementFromTarget store (target e) isSiblingDrop = Some dropTarget"
    and "contentFromTarget store (target e) isSiblingDrop = Some dropContent"
    and "getDraggedElement store = Some dragged"
    and "accepts dropTarget dragged"
    and "getDropIndex isSiblingDrop dropContent rawTarget dragged \<noteq> - 1"
  shows "selectedElementId (snd (handleDrop accepts addElement this e store)) =
           Some (elementId dragged) \<and>
         executed (snd (handleDrop accepts addElement this e store)) =
           executed (addElement dragged store) @
             [ElementLocationCommand (elementId dragged) (contentId dropContent)
                (getDropIndex isSiblingDrop dropContent rawTarget dragged)]"
  using assms getDraggedElement_indexed [OF assms(5)]
  by (simp add: handleDrop_def Let_def setSelectedElement_def execute_def)

text \<open>
  Dropping d on the placeholder before a, with a selected: d is moved to index 0 of the
  root's content and is selected afterwards.
\<close>

theorem handleDrop_selects_dragged_witness:
  "getAttribute (target (exDrag placeholderA)) AnchorPlaceholder = Some ''true'' \<and>
   elementFromTarget exDragStore (target (exDrag placeholderA)) False = Some exA \<and>
   elementFromTarget exDragStore (target (exDrag placeholderA)) True = Some exRootObj \<and>
   contentFromTarget exDragStore (target (exDrag placeholderA)) True = Some exRootContent \<and>
   getDraggedElement exDragStore = Some exD \<and>
   exAccepts exRootObj exD \<and>
   getDropIndex True exRootContent exA exD = 0 \<and>
   selectedElementId exDragStore = Some ''a'' \<and>
   selectedElementId
     (snd (handleDrop exAccepts exAddElement exList (exDrag placeholderA) exDragStore)) =
     Some ''d'' \<and>
   executed (snd (handleDrop exAccepts exAddElement exList (exDrag placeholderA) exDragStore)) =
     [ElementLocationCommand ''d'' ''root-children'' 0]"
proof -
  have t: "target (exDrag placeholderA) = placeholderA"
    by (simp add: exDrag_def)
  have s: "True = (getAttribute (target (exDrag placeholderA)) AnchorPlaceholder = Some ''true'')"
    by (simp add: t ex_placeholder)
  have r: "elementFromTarget exDragStore (target (exDrag placeholderA)) False = Some exA"
    and p: "elementFromTarget exDragStore (target (exDrag placeholderA)) True = Some exRootObj"
    and c: "contentFromTarget exDragStore (target (exDrag placeholderA)) True = Some exRootContent"
    by (simp_all add: t ex_resolve)
  have i: "getDropIndex True exRootContent exA exD = 0"
    by (simp add: getDropIndex_def calculateDropIndex_def exA_def exD_def exObj_def)
  then have n: "getDropIndex True exRootContent exA exD \<noteq> - 1"
    by simp
  have a: "selectedElementId exDragStore = Some ''a''"
    by (simp add: exDragStore_def)
  note d = handleDrop_selects_dragged [where accepts = exAccepts and addElement = exAddElement
      and this = exList, OF s r p c ex_resolve(8) ex_accepts(3) n]
  have "selectedElementId
      (snd (handleDrop exAccepts exAddElement exList (exDrag placeholderA) exDragStore)) =
      Some ''d''"
    unfolding d [THEN conjunct1] by (simp add: exD_def exObj_def)
  moreover
  have "executed (snd (handleDrop exAccepts exAddElement exList (exDrag placeholderA) exDragStore)) =
      [ElementLocationCommand ''d'' ''root-children'' 0]"
    unfolding d [THEN conjunct2] i
    by (simp add: exAddElement_def exDragStore_def exRootContent_def exD_def exObj_def)
  ultimately
  have "selectedElementId
      (snd (handleDrop exAccepts exAddElement exList (exDrag placeholderA) exDragStore)) =
      Some ''d''"
    and "executed (snd (handleDrop exAccepts exAddElement exList (exDrag placeholderA) exDragStore)) =
      [ElementLocationCommand ''d'' ''root-children'' 0]"
    by simp_all
  with r p c i a show ?thesis
    by (simp add: t ex_resolve ex_accepts ex_placeholder)
qed

section \<open>Keys\<close>

text \<open>
  C7, as amended. Escape, on an event the widget handles (its target is the document body
  or a node within the widget's root node), while an element is edited (it is the element
  whose name is editable, and the selected one): the event is consumed, the name of the
  element is its name from before the edit, the element is still selected, no element is
  edited, and nothing was submitted to the executor.
\<close>

theorem handleKeyDown_escape:
  assumes "nodeRef (target e) = documentBody \<or> (\<exists>r. ref this = Some r \<and> contains r (target e))"
    and "keyCode e = 27"
    and "getNameEditableElement store = Some element"
    and "getSelectedElement store = Some element"
  shows "\<exists>store'. handleKeyDown this e store = (e\<lparr>propagationStopped := True\<rparr>, store') \<and>
           getSelectedElement store' = Some (element\<lparr>currentName := uneditedName element\<rparr>) \<and>
           getNameEditableElement store' = None \<and>
           executed store' = executed store"
proof -
  let ?store' = "setName element (uneditedName element) (setNameEditableElement None store)"
  have h: "handleKeyDown this e store = (e\<lparr>propagationStopped := True\<rparr>, ?store')"
    using assms(1,2,3) by (auto simp: handleKeyDown_def Let_def split: option.splits)
  from assms(4) obtain i where i: "selectedElementId store = Some i"
    and g: "getElementById store i = Some element"
    by (auto simp: getSelectedElement_def split: option.splits)
  from g have id: "elementId element = i"
    by (rule getElementById_elementId)
  have "getElementById ?store' i = Some (element\<lparr>currentName := uneditedName element\<rparr>)"
    unfolding setName_def
    by (subst getElementById_updateElement)
       (simp_all add: id g getElementById_setNameEditableElement)
  with i have s: "getSelectedElement ?store' =
      Some (element\<lparr>currentName := uneditedName element\<rparr>)"
    by (simp add: getSelectedElement_def setName_def updateElement_def
        setNameEditableElement_def)
  have n: "getNameEditableElement ?store' = None"
    by (simp add: getNameEditableElement_def setName_def updateElement_def
        setNameEditableElement_def)
  have x: "executed ?store' = executed store"
    by (simp add: setName_def updateElement_def setNameEditableElement_def)
  from h s n x show ?thesis by blast
qed

text \<open>
  Escape on the node of b while b, renamed to "b edited", is edited: b is selected under
  its old name "b", and the executor has received nothing.
\<close>

theorem handleKeyDown_escape_witness:
  "ref exList = Some 1 \<and> contains 1 (target (exKey nodeB 27)) \<and>
   keyCode (exKey nodeB 27) = 27 \<and>
   getNameEditableElement exEditStore = Some exB \<and>
   getSelectedElement exEditStore = Some exB \<and>
   currentName exB = ''b edited'' \<and>
   (\<exists>store'. handleKeyDown exList (exKey nodeB 27) exEditStore =
        ((exKey nodeB 27)\<lparr>propagationStopped := True\<rparr>, store') \<and>
      map_option currentName (getSelectedElement store') = Some ''b'' \<and>
      getNameEditableElement store' = None \<and>
      executed store' = [])"
proof -
  have r: "ref exList = Some 1" and c: "contains 1 (target (exKey nodeB 27))"
    and k: "keyCode (exKey nodeB 27) = 27"
    by (simp_all add: exList_def exKey_def nodeB_def rootNode_def bodyNode_def)
  have n: "getNameEditableElement exEditStore = Some exB"
    and s: "getSelectedElement exEditStore = Some exB"
    by (simp_all add: store_defs exEditStore_def exDragStore_def exRootObj_def exA_def exB_def
        exD_def exObj_def)
  have b: "currentName exB = ''b edited''" "uneditedName exB = ''b''"
    by (simp_all add: exB_def exObj_def)
  have x: "executed exEditStore = []"
    by (simp add: exEditStore_def exDragStore_def)
  from r c have o: "nodeRef (target (exKey nodeB 27)) = documentBody \<or>
      (\<exists>r. ref exList = Some r \<and> contains r (target (exKey nodeB 27)))"
    by blast
  from handleKeyDown_escape [OF o k n s]
  obtain store' where "handleKeyDown exList (exKey nodeB 27) exEditStore =
        ((exKey nodeB 27)\<lparr>propagationStopped := True\<rparr>, store')"
    and "getSelectedElement store' = Some (exB\<lparr>currentName := uneditedName exB\<rparr>)"
    and "getNameEditableElement store' = None"
    and "executed store' = executed exEditStore"
    by blast
  then have "\<exists>store'. handleKeyDown exList (exKey nodeB 27) exEditStore =
        ((exKey nodeB 27)\<lparr>propagationStopped := True\<rparr>, store') \<and>
      map_option currentName (getSelectedElement store') = Some ''b'' \<and>
      getNameEditableElement store' = None \<and>
      executed store' = []"
    by (intro exI [of _ store']) (simp add: b x)
  with r c k n s b(1) show ?thesis
    by (intro conjI)
qed

text \<open>
  C7, as stated for every Escape key event, fails: the key listener of the window receives
  the events of the whole document, and the handler returns at once for a target outside
  the widget. Escape on a node outside the widget while b, renamed to "b edited", is
  edited: b is still the edited element, under its edited name, and the event is not
  consumed.
\<close>

theorem handleKeyDown_escape_outside_counterexample:
  "keyCode (exKey outsideNode 27) = 27 \<and>
   getNameEditableElement exEditStore = Some exB \<and>
   getSelectedElement exEditStore = Some exB \<and>
   uneditedName exB = ''b'' \<and>
   map_option currentName
     (getNameEditableElement (snd (handleKeyDown exList (exKey outsideNode 27) exEditStore))) =
     Some ''b edited'' \<and>
   \<not> propagationStopped (fst (handleKeyDown exList (exKey outsideNode 27) exEditStore))"
  by (simp add: handleKeyDown_def store_defs exEditStore_def exDragStore_def exRootObj_def
      exA_def exB_def exD_def exObj_def exKey_def exList_def outsideNode_def bodyNode_def
      documentBody_def)

text \<open>
  C8. A key event whose target is neither the document body nor a node within the
  widget's root node leaves the event and the store as they are: nothing is changed and
  the event is not consumed.
\<close>

theorem handleKeyDown_outside:
  assumes "nodeRef (target e) \<noteq> documentBody"
    and "\<forall>r. ref this = Some r \<longrightarrow> \<not> contains r (target e)"
  shows "handleKeyDown this e store = (e, store)"
  using assms by (auto simp: handleKeyDown_def Let_def split: option.splits)

text \<open>
  Escape on a node outside the widget while b is edited: the event and the store are
  unchanged. The same key on the node of b is consumed.
\<close>

theorem handleKeyDown_outside_witness:
  "nodeRef (target (exKey outsideNode 27)) \<noteq> documentBody \<and>
   ref exList = Some 1 \<and> \<not> contains 1 (target (exKey outsideNode 27)) \<and>
   handleKeyDown exList (exKey outsideNode 27) exEditStore =
     (exKey outsideNode 27, exEditStore) \<and>
   propagationStopped (fst (handleKeyDown exList (exKey nodeB 27) exEditStore))"
proof -
  have b: "nodeRef (target (exKey outsideNode 27)) \<noteq> documentBody"
    and r: "ref exList = Some 1"
    and c: "\<not> contains 1 (target (exKey outsideNode 27))"
    by (simp_all add: exKey_def outsideNode_def bodyNode_def documentBody_def exList_def)
  from r c have a: "\<forall>r. ref exList = Some r \<longrightarrow> \<not> contains r (target (exKey outsideNode 27))"
    by simp
  have p: "propagationStopped (fst (handleKeyDown exList (exKey nodeB 27) exEditStore))"
    by (simp add: handleKeyDown_def exKey_def exList_def nodeB_def rootNode_def bodyNode_def
        documentBody_def Let_def split: option.splits)
  from handleKeyDown_outside [OF b a, of exEditStore] b r c p show ?thesis
    by (intro conjI)
qed

section \<open>The listeners of the window\<close>

text \<open>
  C5 does not hold of the code. \<^verbatim>\<open>componentWillUnmount\<close> removes the drop listener, then
  removes \<^verbatim>\<open>globalDragEndListener\<close> from the event type \<^verbatim>\<open>'drop'\<close> again, and the key
  listener; it never removes a listener of the type \<^verbatim>\<open>'dragend'\<close>. Mounting on a window
  without listeners and unmounting leaves the drag-end listener registered.
\<close>

theorem mount_unmount_leaves_dragend:
  "listeners exWindow = [] \<and>
   listeners (componentWillUnmount (fst (componentDidMount exList exWindow))
                (snd (componentDidMount exList exWindow))) =
     [(''dragend'', Listener 1 CallUnsetDraggedElement)]"
  by (simp add: componentWillUnmount_def componentDidMount_def addEventListener_def
      removeEventListener_def exList_def exWindow_def Let_def)

text \<open>The same on every window and for every component.\<close>

lemma componentWillUnmount_keeps_dragend:
  "(''dragend'', Listener (Suc (allocated w)) CallUnsetDraggedElement) \<in>
     set (listeners (componentWillUnmount (fst (componentDidMount this w))
                       (snd (componentDidMount this w))))"
  by (simp add: componentWillUnmount_def componentDidMount_def addEventListener_def
      removeEventListener_def Let_def)

end
